theory Spec2Isabelle
  imports Main "HOL-Library.Word"
begin

unbundle bit_operations_syntax

section \<open>Build-time configuration\<close>

text \<open>
  The macros of \<^verbatim>\<open>main.c\<close> that the integrator edits. \<^verbatim>\<open>F_CLK\<close> and \<^verbatim>\<open>F_MSB\<close> carry
  the suffix \<^verbatim>\<open>ul\<close> (32 bits on the PIC12F675 tool chain), \<^verbatim>\<open>PS_TMR\<close> is a plain
  integer constant, and \<^verbatim>\<open>BTN_PORT\<close> is either defined or not (it is tested with
  \<^verbatim>\<open>#if defined(BTN_PORT)\<close> only).
\<close>

record config =
  F_CLK :: "32 word"
  F_MSB :: "32 word"
  PS_TMR :: int
  BTN_PORT :: bool

text \<open>The configuration as the repository ships it (lines 59-61 and 71).\<close>

definition shipped :: config where
  "shipped = \<lparr>F_CLK = 12000000, F_MSB = 6400000, PS_TMR = 64, BTN_PORT = False\<rparr>"

definition CNTR_CLK :: "8 word" where "CNTR_CLK = push_bit 0 1"
definition CNTR_MR :: "8 word" where "CNTR_MR = push_bit 1 1"
definition BTN_PIN :: "8 word" where "BTN_PIN = push_bit 3 1"
definition LED_PIN :: "8 word" where "LED_PIN = push_bit 2 1"

section \<open>Machine state\<close>

text \<open>
  The special function registers and the two globals the program touches. \<open>wave\<close> is
  the history of values written to the \<^verbatim>\<open>GPIO\<close> port, oldest first: it makes the
  pulses on the output pins observable.
\<close>

record mcu =
  GPIO :: "8 word"
  TRISIO :: "8 word"
  WPU :: "8 word"
  nGPPU :: bool
  T0CS :: bool
  PSA :: bool
  PS :: "3 word"
  T0IF :: bool
  T0IE :: bool
  GIE :: bool
  TMR0 :: "8 word"
  tmr_pr :: "8 word"
  tmr_prx1 :: "8 word"
  wave :: "8 word list"

text \<open>
  Modelled from the spec: the pin macros of \<^verbatim>\<open>gpio.h\<close>, which is not among the
  sources. The spec calls them set, clear, toggle and read of a line's level, and
  making a pin an output or an input.
\<close>

definition IO_SET :: "8 word \<Rightarrow> 8 word \<Rightarrow> 8 word" where
  "IO_SET port bits = port OR bits"

definition IO_CLR :: "8 word \<Rightarrow> 8 word \<Rightarrow> 8 word" where
  "IO_CLR port bits = port AND NOT bits"

definition IO_FLP :: "8 word \<Rightarrow> 8 word \<Rightarrow> 8 word" where
  "IO_FLP port bits = port XOR bits"

definition IO_GET :: "8 word \<Rightarrow> 8 word \<Rightarrow> 8 word" where
  "IO_GET port bits = port AND bits"

definition IO_OUT :: "8 word \<Rightarrow> 8 word \<Rightarrow> 8 word" where
  "IO_OUT ddr bits = ddr AND NOT bits"

definition IO_IN :: "8 word \<Rightarrow> 8 word \<Rightarrow> 8 word" where
  "IO_IN ddr bits = ddr OR bits"

text \<open>A write to the port register: the latch changes and the value goes on the pins.\<close>

definition write_GPIO :: "8 word \<Rightarrow> mcu \<Rightarrow> mcu" where
  "write_GPIO v s = s\<lparr>GPIO := v, wave := wave s @ [v]\<rparr>"

text \<open>
  Modelled from the spec: \<^verbatim>\<open>CNTR_DLY()\<close> is \<^verbatim>\<open>NOP16()\<close> of \<^verbatim>\<open>delay.h\<close>, which is not
  among the sources: a fixed busy wait that changes no register.
\<close>

definition CNTR_DLY :: "mcu \<Rightarrow> mcu" where
  "CNTR_DLY s = s"

section \<open>Interrupt handler\<close>

definition isr :: "mcu \<Rightarrow> mcu" where
  "isr s =
    (let s1 = s\<lparr>T0IF := False\<rparr>;
         s2 = s1\<lparr>TMR0 := tmr_pr s1\<rparr>;
         s3 = write_GPIO (IO_FLP (GPIO s2) CNTR_CLK) s2
     in if IO_GET (GPIO s3) CNTR_CLK \<noteq> 0
        then (let s4 = write_GPIO (IO_SET (GPIO s3) CNTR_MR) s3;
                  s5 = CNTR_DLY s4
              in write_GPIO (IO_CLR (GPIO s5) CNTR_MR) s5)
        else s3)"

section \<open>Configuration resolver\<close>

text \<open>
  Line 101. The arithmetic is unsigned 32-bit; the result is stored in a
  \<^verbatim>\<open>uint16_t\<close>, which keeps the low 16 bits. A zero divisor (\<^verbatim>\<open>F_MSB\<close> below 1000)
  has no defined result in C: \<open>None\<close>.
\<close>

definition cyc_of :: "32 word \<Rightarrow> 32 word \<Rightarrow> 16 word option" where
  "cyc_of f_clk f_msb =
    (if f_msb div 1000 = 0 then None
     else Some (ucast ((f_clk div 1000000 div 4) * push_bit 11 1000 div (f_msb div 1000))))"

text \<open>
  The \<^verbatim>\<open>switch (PS_TMR)\<close> of lines 123-133: the prescaler selector and the reload
  constant, or \<open>None\<close> for the \<^verbatim>\<open>default\<close> label. The quotient and its negation are
  16-bit unsigned; the assignment to a \<^verbatim>\<open>char\<close> keeps the low 8 bits.
\<close>

definition ps_switch :: "int \<Rightarrow> 16 word \<Rightarrow> (3 word \<times> 8 word) option" where
  "ps_switch ps cyc =
    (if ps = 256 then Some (7, ucast (- (cyc div 256)))
     else if ps = 128 then Some (6, ucast (- (cyc div 128)))
     else if ps = 64 then Some (5, ucast (- (cyc div 64)))
     else if ps = 32 then Some (4, ucast (- (cyc div 32)))
     else if ps = 16 then Some (3, ucast (- (cyc div 16)))
     else if ps = 8 then Some (2, ucast (- (cyc div 8)))
     else if ps = 4 then Some (1, ucast (- (cyc div 4)))
     else if ps = 2 then Some (0, ucast (- (cyc div 2)))
     else None)"

text \<open>
  \<open>Returns s\<close>: \<^verbatim>\<open>freq_init\<close> came back with the machine in state \<open>s\<close>. \<open>Hangs s\<close>:
  control reached \<^verbatim>\<open>while (1);\<close> of the \<^verbatim>\<open>default\<close> label with the machine in state
  \<open>s\<close> and never leaves it. \<open>Undefined\<close>: the division of line 101 was by zero.
\<close>

datatype outcome = Returns mcu | Hangs mcu | Undefined

definition freq_init :: "config \<Rightarrow> mcu \<Rightarrow> outcome" where
  "freq_init c s =
    (case cyc_of (F_CLK c) (F_MSB c) of
       None \<Rightarrow> Undefined
     | Some cyc \<Rightarrow>
        (let s1 = s\<lparr>nGPPU := False\<rparr>;
             s2 = s1\<lparr>WPU := WPU s1 OR CNTR_CLK\<rparr>;
             s3 = write_GPIO (IO_CLR (GPIO s2) CNTR_CLK) s2;
             s4 = write_GPIO (IO_SET (GPIO s3) CNTR_MR) s3;
             s5 = s4\<lparr>TRISIO := IO_OUT (TRISIO s4) (CNTR_CLK OR CNTR_MR)\<rparr>;
             s6 = (if BTN_PORT c
                   then (let t1 = s5\<lparr>WPU := WPU s5 OR BTN_PIN\<rparr>;
                             t2 = t1\<lparr>TRISIO := IO_IN (TRISIO t1) BTN_PIN\<rparr>
                         in t2\<lparr>TRISIO := IO_OUT (TRISIO t2) LED_PIN\<rparr>)
                   else s5);
             s7 = s6\<lparr>T0CS := False\<rparr>;
             s8 = s7\<lparr>PSA := False\<rparr>
         in case ps_switch (PS_TMR c) cyc of
              None \<Rightarrow> Hangs s8
            | Some (sel, r) \<Rightarrow>
               (let s9 = s8\<lparr>PS := sel\<rparr>;
                    s10 = s9\<lparr>tmr_prx1 := r\<rparr>;
                    s11 = s10\<lparr>tmr_pr := tmr_prx1 s10\<rparr>;
                    s12 = s11\<lparr>T0IF := False\<rparr>
                in Returns (s12\<lparr>T0IE := True\<rparr>))))"

text \<open>The reload constant the resolver produced, if it produced one.\<close>

definition reload_constant :: "outcome \<Rightarrow> 8 word option" where
  "reload_constant out = (case out of Returns s \<Rightarrow> Some (tmr_prx1 s) | _ \<Rightarrow> None)"

text \<open>The resolver rejected the configuration: control is in the fault loop.\<close>

definition hangs :: "outcome \<Rightarrow> bool" where
  "hangs out = (case out of Hangs s \<Rightarrow> True | _ \<Rightarrow> False)"

section \<open>Foreground task\<close>

definition ei :: "mcu \<Rightarrow> mcu" where
  "ei s = s\<lparr>GIE := True\<rparr>"

text \<open>
  The body of \<^verbatim>\<open>while (1)\<close> in \<^verbatim>\<open>main\<close> (lines 147-151). \<open>pins\<close> is the value the read
  of the port returns in \<^verbatim>\<open>IO_GET(BTN_PORT, BTN_PIN)\<close>: its bit 3 is the level on the
  button pin. The product \<^verbatim>\<open>10 * tmr_prx1\<close> is stored in a \<^verbatim>\<open>char\<close>, which keeps its
  low 8 bits.
\<close>

definition loop_body :: "config \<Rightarrow> 8 word \<Rightarrow> mcu \<Rightarrow> mcu" where
  "loop_body c pins s =
    (if BTN_PORT c
     then (if IO_GET pins BTN_PIN = 0
           then (let s1 = s\<lparr>tmr_pr := 10 * tmr_prx1 s\<rparr>
                 in write_GPIO (IO_SET (GPIO s1) LED_PIN) s1)
           else (let s1 = s\<lparr>tmr_pr := tmr_prx1 s\<rparr>
                 in write_GPIO (IO_CLR (GPIO s1) LED_PIN) s1))
     else s)"

section \<open>The running program\<close>

text \<open>
  Modelled from the spec: the timer hardware, which no source file describes. When the
  8-bit up-counter \<^verbatim>\<open>TMR0\<close> rolls over from 255 to 0 it raises \<^verbatim>\<open>T0IF\<close>, and the
  handler is entered if the timer interrupt (\<^verbatim>\<open>T0IE\<close>) and the global interrupt
  (\<^verbatim>\<open>GIE\<close>) are both enabled. A preload \<open>p\<close> therefore expires after \<open>256 - p\<close>
  prescaled ticks.
\<close>

definition timer_expiry :: "mcu \<Rightarrow> mcu" where
  "timer_expiry s =
    (let s1 = s\<lparr>T0IF := True\<rparr> in if GIE s1 \<and> T0IE s1 then isr s1 else s1)"

definition ticks_to_overflow :: "8 word \<Rightarrow> nat" where
  "ticks_to_overflow p = 256 - unat p"

text \<open>
  What happens to the machine once \<^verbatim>\<open>freq_init\<close> is over: the timer expires, or the
  foreground loop goes round once (reading \<open>pins\<close> from the port).
\<close>

datatype event = Expiry | Iteration "8 word"

fun step :: "config \<Rightarrow> mcu \<Rightarrow> event \<Rightarrow> mcu" where
  "step c s Expiry = timer_expiry s"
| "step c s (Iteration pins) = loop_body c pins s"

text \<open>The same inside \<^verbatim>\<open>while (1);\<close> of the \<^verbatim>\<open>default\<close> label, whose body is empty.\<close>

fun hang_step :: "mcu \<Rightarrow> event \<Rightarrow> mcu" where
  "hang_step s Expiry = timer_expiry s"
| "hang_step s (Iteration pins) = s"

text \<open>
  \<^verbatim>\<open>main\<close>, observed after the events \<open>evs\<close>. It never returns, so its result is the
  state the machine is in by then (\<open>None\<close> when line 101 divided by zero). The state
  \<open>s\<close> is the one \<^verbatim>\<open>mcu_init\<close> leaves, which is not among the sources.
\<close>

definition main :: "config \<Rightarrow> event list \<Rightarrow> mcu \<Rightarrow> mcu option" where
  "main c evs s =
    (case freq_init c s of
       Undefined \<Rightarrow> None
     | Hangs s1 \<Rightarrow> Some (foldl hang_step s1 evs)
     | Returns s1 \<Rightarrow> Some (foldl (step c) (ei s1) evs))"

text \<open>
  The registers at power-on reset of the part and the globals as the C start-up code
  leaves them (\<^verbatim>\<open>tmr_pr = 0x00\<close>, \<^verbatim>\<open>tmr_prx1\<close> zeroed): the state of the examples.
\<close>

definition power_on :: mcu where
  "power_on = \<lparr>GPIO = 0, TRISIO = 63, WPU = 55, nGPPU = True, T0CS = True, PSA = True,
     PS = 7, T0IF = False, T0IE = False, GIE = False, TMR0 = 0, tmr_pr = 0, tmr_prx1 = 0,
     wave = []\<rparr>"

section \<open>Observations on the output lines\<close>

definition gate_open :: "8 word \<Rightarrow> bool" where
  "gate_open v = (IO_GET v CNTR_CLK \<noteq> 0)"

definition MR_high :: "8 word \<Rightarrow> bool" where
  "MR_high v = (IO_GET v CNTR_MR \<noteq> 0)"

definition LED_high :: "8 word \<Rightarrow> bool" where
  "LED_high v = (IO_GET v LED_PIN \<noteq> 0)"

text \<open>
  The values on the port from state \<open>s\<close> to the later state \<open>s'\<close>: the value in \<open>s\<close>,
  then every value written since.
\<close>

definition port_trace :: "mcu \<Rightarrow> mcu \<Rightarrow> 8 word list" where
  "port_trace s s' = GPIO s # drop (length (wave s)) (wave s')"

text \<open>
  The number of reset pulses completed along a sequence of port values: the times the
  reset line, being high, is returned low.
\<close>

fun reset_pulses :: "8 word list \<Rightarrow> nat" where
  "reset_pulses (a # b # vs) =
     (if MR_high a \<and> \<not> MR_high b then 1 else 0) + reset_pulses (b # vs)"
| "reset_pulses vs = 0"

section \<open>The legality predicate of the specification\<close>

text \<open>
  The cycle count of the formula in the specification's section 4.1, on natural numbers.
\<close>

definition cycles :: "nat \<Rightarrow> nat \<Rightarrow> nat" where
  "cycles clk msb = (clk div 1000000 div 4) * (1000 * 2048) div (msb div 1000)"

text \<open>No division of that formula truncates: the cycle count is an exact integer.\<close>

definition cycles_exact :: "nat \<Rightarrow> nat \<Rightarrow> bool" where
  "cycles_exact clk msb =
    (1000000 dvd clk \<and> 4 dvd clk div 1000000 \<and> 1000 dvd msb \<and> 0 < msb div 1000 \<and>
     msb div 1000 dvd (clk div 1000000 div 4) * (1000 * 2048))"

definition prescalers :: "int set" where
  "prescalers = {2, 4, 8, 16, 32, 64, 128, 256}"

text \<open>The ticks per gate phase: the cycle count over the prescaler.\<close>

definition quotient :: "config \<Rightarrow> nat" where
  "quotient c = cycles (unat (F_CLK c)) (unat (F_MSB c)) div nat (PS_TMR c)"

text \<open>
  A legal configuration: what lines 36-40 of the source ask of the three macros, which
  is the predicate of section 4.1 on parameters of the specification's data model.
\<close>

definition legal :: "config \<Rightarrow> bool" where
  "legal c =
    (4000000 \<le> unat (F_CLK c) \<and> PS_TMR c \<in> prescalers \<and>
     cycles_exact (unat (F_CLK c)) (unat (F_MSB c)) \<and>
     nat (PS_TMR c) dvd cycles (unat (F_CLK c)) (unat (F_MSB c)) \<and>
     quotient c \<le> 25)"

text \<open>The count whose two's-complement negative the reload constant \<open>r\<close> is.\<close>

definition magnitude :: "8 word \<Rightarrow> nat" where
  "magnitude r = unat (- r)"

section \<open>The levels of the output lines\<close>

lemmas pin_defs = CNTR_CLK_def CNTR_MR_def BTN_PIN_def LED_PIN_def
lemmas io_defs = IO_SET_def IO_CLR_def IO_FLP_def IO_GET_def IO_OUT_def IO_IN_def

lemma gate_open_bit: "gate_open v = bit v 0"
  using and_exp_eq_0_iff_not_bit [of v 0] by (simp add: gate_open_def IO_GET_def CNTR_CLK_def)

lemma MR_high_bit: "MR_high v = bit v 1"
  using and_exp_eq_0_iff_not_bit [of v 1] by (simp add: MR_high_def IO_GET_def CNTR_MR_def)

lemma LED_high_bit: "LED_high v = bit v 2"
  using and_exp_eq_0_iff_not_bit [of v 2] by (simp add: LED_high_def IO_GET_def LED_PIN_def)

lemmas line_bits = gate_open_bit MR_high_bit LED_high_bit

lemma flp_clk: "gate_open (IO_FLP v CNTR_CLK) = (\<not> gate_open v)" "MR_high (IO_FLP v CNTR_CLK) = MR_high v"
  by (simp_all add: line_bits IO_FLP_def CNTR_CLK_def bit_simps)

lemma set_mr: "gate_open (IO_SET v CNTR_MR) = gate_open v" "MR_high (IO_SET v CNTR_MR)"
  by (simp_all add: line_bits IO_SET_def CNTR_MR_def bit_simps)

lemma clr_mr: "gate_open (IO_CLR v CNTR_MR) = gate_open v" "\<not> MR_high (IO_CLR v CNTR_MR)"
  by (simp_all add: line_bits IO_CLR_def CNTR_MR_def bit_simps)

lemma clr_clk: "\<not> gate_open (IO_CLR v CNTR_CLK)" "MR_high (IO_CLR v CNTR_CLK) = MR_high v"
  by (simp_all add: line_bits IO_CLR_def CNTR_CLK_def bit_simps)

lemma set_led: "gate_open (IO_SET v LED_PIN) = gate_open v" "MR_high (IO_SET v LED_PIN) = MR_high v" "LED_high (IO_SET v LED_PIN)"
  by (simp_all add: line_bits IO_SET_def LED_PIN_def bit_simps)

lemma clr_led: "gate_open (IO_CLR v LED_PIN) = gate_open v" "MR_high (IO_CLR v LED_PIN) = MR_high v" "\<not> LED_high (IO_CLR v LED_PIN)"
  by (simp_all add: line_bits IO_CLR_def LED_PIN_def bit_simps)

lemmas pin_bits = flp_clk set_mr clr_mr clr_clk set_led clr_led

lemma isr_unfold: "isr s =
  (if gate_open (GPIO s)
   then write_GPIO (IO_FLP (GPIO s) CNTR_CLK) (s\<lparr>T0IF := False, TMR0 := tmr_pr s\<rparr>)
   else write_GPIO (IO_CLR (IO_SET (IO_FLP (GPIO s) CNTR_CLK) CNTR_MR) CNTR_MR)
         (write_GPIO (IO_SET (IO_FLP (GPIO s) CNTR_CLK) CNTR_MR)
           (write_GPIO (IO_FLP (GPIO s) CNTR_CLK) (s\<lparr>T0IF := False, TMR0 := tmr_pr s\<rparr>))))"
  by (simp add: isr_def Let_def write_GPIO_def CNTR_DLY_def flp_clk flip: gate_open_def)

lemma isr_gate: "gate_open (GPIO (isr s)) = (\<not> gate_open (GPIO s))"
  by (simp add: isr_unfold write_GPIO_def pin_bits)

lemma isr_pulses: "reset_pulses (port_trace s (isr s)) = (if gate_open (GPIO s) then 0 else 1)"
  by (simp add: isr_unfold port_trace_def write_GPIO_def pin_bits)

lemma isr_MR: "MR_high (GPIO (isr s)) = (gate_open (GPIO s) \<and> MR_high (GPIO s))"
  by (simp add: isr_unfold write_GPIO_def pin_bits)

section \<open>The interrupt handler\<close>

text \<open>
  C2. On every invocation of the handler a reset pulse is emitted if and only if the
  gate-enable line reads high after the toggle, which is exactly when it was low before
  (a transition from closed to open); on a transition from open to closed no reset
  pulse is emitted.
\<close>

theorem isr_reset_pulse_placement:
  "(reset_pulses (port_trace s (isr s)) = 1) = gate_open (GPIO (isr s)) \<and>
   (reset_pulses (port_trace s (isr s)) = 0) = gate_open (GPIO s) \<and>
   gate_open (GPIO (isr s)) = (\<not> gate_open (GPIO s))"
  by (simp add: isr_pulses isr_gate)

text \<open>
  C7. On every invocation the handler clears the interrupt flag and loads the timer with
  the value \<^verbatim>\<open>tmr_pr\<close> has at that invocation, leaving \<^verbatim>\<open>tmr_pr\<close> as it is: the gate
  phase that begins there lasts the reload interval then in effect, and a later
  foreground iteration does not touch the loaded timer.
\<close>

theorem isr_reload_step:
  "\<not> T0IF (isr s) \<and> TMR0 (isr s) = tmr_pr s \<and> tmr_pr (isr s) = tmr_pr s \<and>
   ticks_to_overflow (TMR0 (isr s)) = ticks_to_overflow (tmr_pr s) \<and>
   TMR0 (loop_body c pins (isr s)) = tmr_pr s"
  by (simp add: isr_unfold write_GPIO_def loop_body_def Let_def)

section \<open>The configuration resolver\<close>

text \<open>
  C3. For the documented combinations the resolver produces a reload constant of exactly
  the stated magnitude: 20 MHz, 6.4 MHz and prescaler 64 give 25; 16 MHz, 6.4 MHz and
  64 give 20; 12 MHz, 6.4 MHz and 64 give 15; 20 MHz, 3.2 MHz and 128 give 25.
\<close>

theorem documented_magnitudes:
  "map_option magnitude (reload_constant (freq_init
      \<lparr>F_CLK = 20000000, F_MSB = 6400000, PS_TMR = 64, BTN_PORT = b\<rparr> s)) = Some 25 \<and>
   map_option magnitude (reload_constant (freq_init
      \<lparr>F_CLK = 16000000, F_MSB = 6400000, PS_TMR = 64, BTN_PORT = b\<rparr> s)) = Some 20 \<and>
   map_option magnitude (reload_constant (freq_init
      \<lparr>F_CLK = 12000000, F_MSB = 6400000, PS_TMR = 64, BTN_PORT = b\<rparr> s)) = Some 15 \<and>
   map_option magnitude (reload_constant (freq_init
      \<lparr>F_CLK = 20000000, F_MSB = 3200000, PS_TMR = 128, BTN_PORT = b\<rparr> s)) = Some 25"
  by (simp add: magnitude_def reload_constant_def freq_init_def cyc_of_def ps_switch_def Let_def)

section \<open>Rejected configurations\<close>

lemma div1000: "(f div 1000 = 0) = (f < (1000 :: 32 word))"
proof -
  have "(unat f div 1000 = 0) = (unat f < 1000)" by arith
  then show ?thesis by (simp add: word_less_nat_alt unat_div flip: unat_eq_0)
qed

lemma cyc_of_Some: "1000 \<le> f_msb \<Longrightarrow> \<exists>cyc. cyc_of f_clk f_msb = Some cyc"
  by (simp add: cyc_of_def div1000 not_less)

lemma ps_switch_None: "(ps_switch ps cyc = None) = (ps \<notin> prescalers)"
  by (simp add: ps_switch_def prescalers_def)

lemma freq_init_hangs: 
  assumes "1000 \<le> F_MSB c"
  shows "hangs (freq_init c s) = (PS_TMR c \<notin> prescalers)"
proof -
  from assms obtain cyc where cyc: "cyc_of (F_CLK c) (F_MSB c) = Some cyc"
    using cyc_of_Some by blast
  show ?thesis
  proof (cases "ps_switch (PS_TMR c) cyc")
    case None
    then show ?thesis using ps_switch_None [of "PS_TMR c" cyc]
      by (simp add: freq_init_def cyc hangs_def Let_def)
  next
    case (Some p)
    then show ?thesis using ps_switch_None [of "PS_TMR c" cyc]
      by (cases p) (simp add: freq_init_def cyc hangs_def Let_def)
  qed
qed

lemma freq_init_reload:
  assumes "1000 \<le> F_MSB c"
  shows "(reload_constant (freq_init c s) = None) = (PS_TMR c \<notin> prescalers)"
proof -
  from assms obtain cyc where cyc: "cyc_of (F_CLK c) (F_MSB c) = Some cyc"
    using cyc_of_Some by blast
  show ?thesis
  proof (cases "ps_switch (PS_TMR c) cyc")
    case None
    then show ?thesis using ps_switch_None [of "PS_TMR c" cyc]
      by (simp add: freq_init_def cyc reload_constant_def Let_def)
  next
    case (Some p)
    then show ?thesis using ps_switch_None [of "PS_TMR c" cyc]
      by (cases p) (simp add: freq_init_def cyc reload_constant_def Let_def)
  qed
qed

text \<open>
  C1, as amended. For a full-scale frequency of at least 1000 Hz the resolver enters the
  permanent fault loop, and produces no reload constant, exactly when the prescaler is
  not one of 2, 4, 8, 16, 32, 64, 128 and 256. It tests nothing else: that the cycle
  count is whole, divisible by the prescaler and at most 25 times the prescaler is
  left to the integrator.
\<close>

theorem freq_init_rejects_iff:
  "1000 \<le> F_MSB c \<Longrightarrow>
   hangs (freq_init c s) = (PS_TMR c \<notin> prescalers) \<and>
   (reload_constant (freq_init c s) = None) = (PS_TMR c \<notin> prescalers)"
  by (simp add: freq_init_hangs freq_init_reload)

theorem freq_init_rejects_iff_witness:
  "(1000 :: 32 word) \<le> 6400000 \<and>
   hangs (freq_init \<lparr>F_CLK = 20000000, F_MSB = 6400000, PS_TMR = 3, BTN_PORT = False\<rparr> power_on) \<and>
   reload_constant (freq_init
      \<lparr>F_CLK = 20000000, F_MSB = 6400000, PS_TMR = 3, BTN_PORT = False\<rparr> power_on) = None"
  using freq_init_rejects_iff
    [of "\<lparr>F_CLK = 20000000, F_MSB = 6400000, PS_TMR = 3, BTN_PORT = False\<rparr>" power_on]
  by (simp add: prescalers_def)

text \<open>
  C1 as stated fails: with 20 MHz, 6.4 MHz and prescaler 32 the cycle count is 1600 and
  the quotient 50 exceeds 25, so the configuration is not legal, yet the resolver does
  not enter the fault loop and produces the reload constant 206.
\<close>

theorem illegal_quotient_accepted:
  "quotient \<lparr>F_CLK = 20000000, F_MSB = 6400000, PS_TMR = 32, BTN_PORT = False\<rparr> = 50 \<and>
   \<not> legal \<lparr>F_CLK = 20000000, F_MSB = 6400000, PS_TMR = 32, BTN_PORT = False\<rparr> \<and>
   \<not> hangs (freq_init
      \<lparr>F_CLK = 20000000, F_MSB = 6400000, PS_TMR = 32, BTN_PORT = False\<rparr> power_on) \<and>
   reload_constant (freq_init
      \<lparr>F_CLK = 20000000, F_MSB = 6400000, PS_TMR = 32, BTN_PORT = False\<rparr> power_on) = Some 206"
  by (simp add: quotient_def cycles_def legal_def hangs_def reload_constant_def freq_init_def
      cyc_of_def ps_switch_def Let_def)

section \<open>Runs of the program\<close>

lemma foldl_invariant:
  assumes "P s" and "\<And>s e. P s \<Longrightarrow> P (f s e)"
  shows "P (foldl f s evs)"
  using assms(1) by (induction evs arbitrary: s) (simp_all add: assms(2))

lemma timer_expiry_disabled: "\<not> T0IE s \<Longrightarrow> timer_expiry s = s\<lparr>T0IF := True\<rparr>"
  by (simp add: timer_expiry_def Let_def)

lemma timer_expiry_enabled: "GIE s \<Longrightarrow> T0IE s \<Longrightarrow> timer_expiry s = isr (s\<lparr>T0IF := True\<rparr>)"
  by (simp add: timer_expiry_def Let_def)

lemma hang_step_keeps:
  "\<not> T0IE s \<Longrightarrow> \<not> T0IE (hang_step s e) \<and> GPIO (hang_step s e) = GPIO s \<and>
     wave (hang_step s e) = wave s \<and> TRISIO (hang_step s e) = TRISIO s \<and> GIE (hang_step s e) = GIE s"
  by (cases e) (simp_all add: timer_expiry_disabled)

lemma hang_run_keeps:
  assumes "\<not> T0IE s"
  shows "\<not> T0IE (foldl hang_step s evs) \<and> GPIO (foldl hang_step s evs) = GPIO s \<and>
     wave (foldl hang_step s evs) = wave s \<and> TRISIO (foldl hang_step s evs) = TRISIO s \<and>
     GIE (foldl hang_step s evs) = GIE s"
proof -
  let ?P = "\<lambda>t::mcu. \<not> T0IE t \<and> GPIO t = GPIO s \<and> wave t = wave s \<and> TRISIO t = TRISIO s \<and> GIE t = GIE s"
  have "?P (foldl hang_step s evs)"
  proof (rule foldl_invariant)
    show "?P s" using assms by simp
  next
    fix t e assume "?P t"
    then show "?P (hang_step t e)" using hang_step_keeps [of t e] by simp
  qed
  then show ?thesis .
qed

text \<open>The state in which \<^verbatim>\<open>freq_init\<close> reaches its \<^verbatim>\<open>switch\<close>.\<close>

lemma freq_init_Hangs:
  assumes "freq_init c s = Hangs h"
  shows "T0IE h = T0IE s \<and> GIE h = GIE s \<and>
     GPIO h = IO_SET (IO_CLR (GPIO s) CNTR_CLK) CNTR_MR \<and>
     wave h = wave s @ [IO_CLR (GPIO s) CNTR_CLK, IO_SET (IO_CLR (GPIO s) CNTR_CLK) CNTR_MR]"
  using assms
  by (auto simp add: freq_init_def Let_def write_GPIO_def
      split: option.splits if_splits)

lemma freq_init_Returns:
  assumes "freq_init c s = Returns s1"
  shows "T0IE s1 \<and> GIE s1 = GIE s \<and> tmr_pr s1 = tmr_prx1 s1 \<and>
     GPIO s1 = IO_SET (IO_CLR (GPIO s) CNTR_CLK) CNTR_MR \<and>
     wave s1 = wave s @ [IO_CLR (GPIO s) CNTR_CLK, IO_SET (IO_CLR (GPIO s) CNTR_CLK) CNTR_MR]"
  using assms
  by (auto simp add: freq_init_def Let_def write_GPIO_def
      split: option.splits if_splits)

text \<open>
  C6, as amended. With a prescaler the switch does not know (3, say) and the timer interrupt
  disabled on entry, the resolver enters the fault loop; whatever happens afterwards,
  the timer interrupt stays disabled, the gate-enable line stays low and the reset line
  high, as initialisation set them, and nothing more is written to the port.
\<close>

theorem fault_containment:
  assumes "PS_TMR c \<notin> prescalers" and "1000 \<le> F_MSB c" and "\<not> T0IE s"
  shows "hangs (freq_init c s) \<and>
     map_option T0IE (main c evs s) = Some False \<and>
     map_option (gate_open \<circ> GPIO) (main c evs s) = Some False \<and>
     map_option (MR_high \<circ> GPIO) (main c evs s) = Some True \<and>
     map_option wave (main c evs s) =
       Some (wave s @ [IO_CLR (GPIO s) CNTR_CLK, IO_SET (IO_CLR (GPIO s) CNTR_CLK) CNTR_MR])"
proof -
  have h: "hangs (freq_init c s)" using assms freq_init_hangs by simp
  then obtain h where fi: "freq_init c s = Hangs h"
    by (cases "freq_init c s") (simp_all add: hangs_def)
  note fh = freq_init_Hangs [OF fi]
  have "\<not> T0IE h" using fh assms(3) by simp
  note run = hang_run_keeps [OF this, of evs]
  have m: "main c evs s = Some (foldl hang_step h evs)" by (simp add: main_def fi)
  show ?thesis using h run fh by (simp add: m pin_bits)
qed

theorem fault_containment_witness:
  "3 \<notin> prescalers \<and> (1000 :: 32 word) \<le> 6400000 \<and> \<not> T0IE power_on \<and>
   hangs (freq_init (shipped\<lparr>PS_TMR := 3\<rparr>) power_on) \<and>
   map_option T0IE
     (main (shipped\<lparr>PS_TMR := 3\<rparr>) [Expiry, Iteration 0, Expiry] power_on) = Some False \<and>
   map_option (gate_open \<circ> GPIO)
     (main (shipped\<lparr>PS_TMR := 3\<rparr>) [Expiry, Iteration 0, Expiry] power_on) = Some False \<and>
   map_option (MR_high \<circ> GPIO)
     (main (shipped\<lparr>PS_TMR := 3\<rparr>) [Expiry, Iteration 0, Expiry] power_on) = Some True"
  using fault_containment [of "shipped\<lparr>PS_TMR := 3\<rparr>" power_on "[Expiry, Iteration 0, Expiry]"]
  by (simp add: prescalers_def shipped_def power_on_def)

section \<open>The range-select shim\<close>

text \<open>
  C5, as amended. When \<^verbatim>\<open>BTN_PORT\<close> is defined, each iteration of the foreground loop
  samples the control input as a level: if it reads 0, \<^verbatim>\<open>tmr_pr\<close> becomes the 8-bit
  product \<^verbatim>\<open>10 * tmr_prx1\<close> and the status output is driven high; otherwise \<^verbatim>\<open>tmr_pr\<close>
  becomes \<^verbatim>\<open>tmr_prx1\<close> and the status output is driven low.
\<close>

theorem range_select_shim:
  "BTN_PORT c \<Longrightarrow>
   tmr_pr (loop_body c pins s) =
     (if IO_GET pins BTN_PIN = 0 then 10 * tmr_prx1 s else tmr_prx1 s) \<and>
   LED_high (GPIO (loop_body c pins s)) = (IO_GET pins BTN_PIN = 0) \<and>
   tmr_prx1 (loop_body c pins s) = tmr_prx1 s"
  by (simp add: loop_body_def Let_def write_GPIO_def pin_bits)

theorem range_select_shim_witness:
  "tmr_pr (loop_body (shipped\<lparr>BTN_PORT := True\<rparr>) 0 (power_on\<lparr>tmr_prx1 := 241\<rparr>)) = 106 \<and>
   LED_high (GPIO (loop_body (shipped\<lparr>BTN_PORT := True\<rparr>) 0 (power_on\<lparr>tmr_prx1 := 241\<rparr>))) \<and>
   tmr_pr (loop_body (shipped\<lparr>BTN_PORT := True\<rparr>) 8 (power_on\<lparr>tmr_prx1 := 241\<rparr>)) = 241 \<and>
   \<not> LED_high (GPIO (loop_body (shipped\<lparr>BTN_PORT := True\<rparr>) 8 (power_on\<lparr>tmr_prx1 := 241\<rparr>)))"
  using range_select_shim [of "shipped\<lparr>BTN_PORT := True\<rparr>" 0 "power_on\<lparr>tmr_prx1 := 241\<rparr>"]
    range_select_shim [of "shipped\<lparr>BTN_PORT := True\<rparr>" 8 "power_on\<lparr>tmr_prx1 := 241\<rparr>"]
  by (simp add: shipped_def power_on_def IO_GET_def BTN_PIN_def)

text \<open>
  C5 as stated fails on the source as it is configured: \<^verbatim>\<open>BTN_PORT\<close> is not defined,
  and an iteration that reads the control input as 0 leaves \<^verbatim>\<open>tmr_pr\<close> at the nominal
  241, not at ten times it (106 in 8 bits), and the status output low.
\<close>

theorem shim_compiled_out:
  "IO_GET 0 BTN_PIN = 0 \<and>
   map_option tmr_prx1 (main shipped [Iteration 0] power_on) = Some 241 \<and>
   map_option tmr_pr (main shipped [Iteration 0] power_on) = Some 241 \<and>
   10 * (241 :: 8 word) = 106 \<and>
   map_option (LED_high \<circ> GPIO) (main shipped [Iteration 0] power_on) = Some False"
  by (simp add: main_def shipped_def power_on_def freq_init_def cyc_of_def ps_switch_def Let_def
      loop_body_def ei_def write_GPIO_def io_defs pin_defs LED_high_def)

section \<open>The armed program\<close>

lemma isr_keeps: "GIE (isr s) = GIE s \<and> T0IE (isr s) = T0IE s \<and> tmr_prx1 (isr s) = tmr_prx1 s \<and> tmr_pr (isr s) = tmr_pr s"
  by (simp add: isr_unfold write_GPIO_def)

lemma loop_body_keeps:
  "GIE (loop_body c pins s) = GIE s \<and> T0IE (loop_body c pins s) = T0IE s \<and>
   tmr_prx1 (loop_body c pins s) = tmr_prx1 s \<and>
   gate_open (GPIO (loop_body c pins s)) = gate_open (GPIO s) \<and>
   MR_high (GPIO (loop_body c pins s)) = MR_high (GPIO s)"
  by (simp add: loop_body_def Let_def write_GPIO_def pin_bits)

lemma loop_body_empty: "\<not> BTN_PORT c \<Longrightarrow> loop_body c pins s = s"
  by (simp add: loop_body_def)

lemma step_armed: "GIE s \<and> T0IE s \<Longrightarrow> GIE (step c s e) \<and> T0IE (step c s e)"
  by (cases e) (simp_all add: timer_expiry_enabled isr_keeps loop_body_keeps)

lemma step_prx1: "tmr_prx1 (step c s e) = tmr_prx1 s"
  by (cases e) (simp_all add: timer_expiry_def Let_def isr_keeps loop_body_keeps)

lemma step_pr: "\<not> BTN_PORT c \<Longrightarrow> tmr_pr (step c s e) = tmr_pr s"
  by (cases e) (simp_all add: timer_expiry_def Let_def isr_keeps loop_body_empty)

lemma run_armed: "GIE s \<and> T0IE s \<Longrightarrow> GIE (foldl (step c) s evs) \<and> T0IE (foldl (step c) s evs)"
  by (rule foldl_invariant [where P = "\<lambda>t::mcu. GIE t \<and> T0IE t"]) (simp_all add: step_armed)

lemma run_prx1: "tmr_prx1 (foldl (step c) s evs) = tmr_prx1 s"
  by (rule foldl_invariant [where P = "\<lambda>t::mcu. tmr_prx1 t = tmr_prx1 s"]) (simp_all add: step_prx1)

lemma run_pr: "\<not> BTN_PORT c \<Longrightarrow> tmr_pr (foldl (step c) s evs) = tmr_pr s"
  by (rule foldl_invariant [where P = "\<lambda>t::mcu. tmr_pr t = tmr_pr s"]) (simp_all add: step_pr)

lemma main_Returns: "freq_init c s = Returns s1 \<Longrightarrow> main c evs s = Some (foldl (step c) (ei s1) evs)"
  by (simp add: main_def)

lemma freq_init_shipped: "freq_init shipped power_on = Returns
  (power_on\<lparr>nGPPU := False, GPIO := 2, wave := [0, 2], WPU := 55, TRISIO := 60, T0CS := False, PSA := False,
     PS := 5, tmr_prx1 := 241, tmr_pr := 241, T0IF := False, T0IE := True\<rparr>)"
  by (simp add: freq_init_def shipped_def power_on_def cyc_of_def ps_switch_def Let_def write_GPIO_def io_defs pin_defs)

lemma run_MR:
  assumes "GIE s" "T0IE s" "MR_high (GPIO s)" "\<not> gate_open (GPIO s)"
  shows "MR_high (GPIO (foldl (step c) s evs)) = (Expiry \<notin> set evs) \<and>
    (Expiry \<notin> set evs \<longrightarrow> \<not> gate_open (GPIO (foldl (step c) s evs)))"
proof (induction evs rule: rev_induct)
  case Nil
  then show ?case using assms by simp
next
  case (snoc e evs)
  let ?t = "foldl (step c) s evs"
  have armed: "GIE ?t" "T0IE ?t" using run_armed [of s c evs] assms by simp_all
  show ?case
  proof (cases e)
    case Expiry
    then show ?thesis using snoc armed
      by (auto simp add: timer_expiry_enabled isr_MR)
  next
    case (Iteration pins)
    then show ?thesis using snoc by (simp add: loop_body_keeps)
  qed
qed

text \<open>
  C10. With \<^verbatim>\<open>BTN_PORT\<close> undefined, as the source is configured, the body of the
  foreground loop is empty, and once \<^verbatim>\<open>freq_init\<close> has returned \<^verbatim>\<open>tmr_pr\<close> equals
  \<^verbatim>\<open>tmr_prx1\<close>, the nominal reload constant, whatever events follow; every single
  event preserves \<^verbatim>\<open>tmr_pr = tmr_prx1\<close>.
\<close>

theorem reload_value_stays_nominal:
  assumes "\<not> BTN_PORT c" and "freq_init c s = Returns s1"
  shows "map_option tmr_pr (main c evs s) = Some (tmr_prx1 s1) \<and>
     map_option tmr_prx1 (main c evs s) = Some (tmr_prx1 s1) \<and>
     loop_body c pins s2 = s2 \<and>
     (tmr_pr s2 = tmr_prx1 s2 \<longrightarrow> tmr_pr (step c s2 e) = tmr_prx1 (step c s2 e))"
  using assms freq_init_Returns [OF assms(2)]
  by (simp add: main_Returns run_pr run_prx1 ei_def loop_body_empty step_pr step_prx1)

theorem reload_value_stays_nominal_witness:
  "\<not> BTN_PORT shipped \<and>
   map_option tmr_pr (main shipped [Expiry, Iteration 0, Expiry] power_on) = Some 241 \<and>
   map_option tmr_prx1 (main shipped [Expiry, Iteration 0, Expiry] power_on) = Some 241 \<and>
   loop_body shipped 0 power_on = power_on \<and>
   tmr_pr power_on = tmr_prx1 power_on \<and>
   tmr_pr (step shipped power_on Expiry) = tmr_prx1 (step shipped power_on Expiry)"
  using reload_value_stays_nominal
    [of shipped power_on _ "[Expiry, Iteration 0, Expiry]" 0 power_on Expiry,
      OF _ freq_init_shipped]
  by (simp add: shipped_def power_on_def)

text \<open>
  C8, as amended. The reset line is high from initialisation until the first timer
  expiry; the handler of that expiry returns it low, and from then on it is low
  whenever no pulse is in progress. On each transition from closed to open the handler
  drives it high and returns it low exactly once, and on a transition from open to
  closed not at all.
\<close>

theorem reset_line_levels:
  assumes "freq_init c s = Returns s1"
  shows "map_option (MR_high \<circ> GPIO) (main c evs s) = Some (Expiry \<notin> set evs) \<and>
    (reset_pulses (port_trace s2 (isr s2)) = 1) = (\<not> gate_open (GPIO s2)) \<and>
    (reset_pulses (port_trace s2 (isr s2)) = 0) = gate_open (GPIO s2)"
proof -
  note fr = freq_init_Returns [OF assms]
  have "MR_high (GPIO (foldl (step c) (ei s1) evs)) = (Expiry \<notin> set evs)"
    using run_MR [of "ei s1" c evs] fr by (simp add: ei_def pin_bits)
  then show ?thesis by (simp add: main_Returns [OF assms] isr_pulses)
qed

theorem reset_line_levels_witness: "map_option (MR_high \<circ> GPIO) (main shipped [Iteration 0] power_on) = Some True \<and>
   map_option (MR_high \<circ> GPIO) (main shipped [Iteration 0, Expiry, Expiry] power_on) = Some False \<and>
   reset_pulses (port_trace (power_on\<lparr>GPIO := 2\<rparr>) (isr (power_on\<lparr>GPIO := 2\<rparr>))) = 1 \<and>
   reset_pulses (port_trace (power_on\<lparr>GPIO := 1\<rparr>) (isr (power_on\<lparr>GPIO := 1\<rparr>))) = 0"
  using reset_line_levels [OF freq_init_shipped, of "[Iteration 0]" "power_on\<lparr>GPIO := 2\<rparr>"]
    reset_line_levels [OF freq_init_shipped, of "[Iteration 0, Expiry, Expiry]" "power_on\<lparr>GPIO := 1\<rparr>"]
  by (simp add: power_on_def gate_open_def io_defs pin_defs)

text \<open>
  C8 as stated fails: in the shipped configuration the reset line is low after the
  first timer expiry, when the handler has returned and no pulse is in progress, and
  it is still low after a following foreground iteration or a second expiry.
\<close>

theorem reset_line_rests_low: "map_option (MR_high \<circ> GPIO) (main shipped [Expiry] power_on) = Some False \<and>
   map_option (MR_high \<circ> GPIO) (main shipped [Expiry, Iteration 0] power_on) = Some False \<and>
   map_option (MR_high \<circ> GPIO) (main shipped [Expiry, Expiry] power_on) = Some False"
  unfolding main_Returns [OF freq_init_shipped]
  by (simp add: ei_def timer_expiry_def isr_unfold write_GPIO_def loop_body_def shipped_def
    power_on_def Let_def gate_open_def MR_high_def io_defs pin_defs)

lemma freq_init_quotient50:
  "freq_init \<lparr>F_CLK = 20000000, F_MSB = 6400000, PS_TMR = 32, BTN_PORT = False\<rparr> power_on = Returns
    (power_on\<lparr>nGPPU := False, GPIO := 2, wave := [0, 2], WPU := 55, TRISIO := 60, T0CS := False,
       PSA := False, PS := 4, tmr_prx1 := 206, tmr_pr := 206, T0IF := False, T0IE := True\<rparr>)"
  by (simp add: freq_init_def power_on_def cyc_of_def ps_switch_def Let_def write_GPIO_def
      io_defs pin_defs)

text \<open>
  C6 as stated fails for a configuration that is invalid in another way: with 20 MHz,
  6.4 MHz and prescaler 32 the quotient 50 exceeds 25, yet \<^verbatim>\<open>freq_init\<close> returns with
  the timer interrupt enabled, and the first expiry opens the gate and returns the
  reset line low.
\<close>

theorem illegal_configuration_armed:
  "\<not> legal \<lparr>F_CLK = 20000000, F_MSB = 6400000, PS_TMR = 32, BTN_PORT = False\<rparr> \<and>
   quotient \<lparr>F_CLK = 20000000, F_MSB = 6400000, PS_TMR = 32, BTN_PORT = False\<rparr> = 50 \<and>
   \<not> T0IE power_on \<and>
   \<not> hangs (freq_init
      \<lparr>F_CLK = 20000000, F_MSB = 6400000, PS_TMR = 32, BTN_PORT = False\<rparr> power_on) \<and>
   map_option T0IE (main
      \<lparr>F_CLK = 20000000, F_MSB = 6400000, PS_TMR = 32, BTN_PORT = False\<rparr> [] power_on) = Some True \<and>
   map_option GIE (main
      \<lparr>F_CLK = 20000000, F_MSB = 6400000, PS_TMR = 32, BTN_PORT = False\<rparr> [] power_on) = Some True \<and>
   map_option (gate_open \<circ> GPIO) (main
      \<lparr>F_CLK = 20000000, F_MSB = 6400000, PS_TMR = 32, BTN_PORT = False\<rparr> [Expiry] power_on) = Some True \<and>
   map_option (MR_high \<circ> GPIO) (main
      \<lparr>F_CLK = 20000000, F_MSB = 6400000, PS_TMR = 32, BTN_PORT = False\<rparr> [Expiry] power_on) = Some False \<and>
   map_option wave (main
      \<lparr>F_CLK = 20000000, F_MSB = 6400000, PS_TMR = 32, BTN_PORT = False\<rparr> [Expiry] power_on) =
     Some [0, 2, 3, 3, 1]"
  unfolding main_Returns [OF freq_init_quotient50] freq_init_quotient50
  by (simp add: legal_def quotient_def cycles_def hangs_def
      ei_def timer_expiry_def isr_unfold write_GPIO_def power_on_def Let_def
      gate_open_def MR_high_def io_defs pin_defs)

section \<open>The reload constant of a legal configuration\<close>

lemma unat_clk_part: "unat ((f :: 32 word) div 1000000 div 4 * 2048000) = unat f div 1000000 div 4 * 2048000"
proof -
  have "unat f < 4294967296" using unsigned_less [of f] by simp
  then have b: "unat f div 1000000 div 4 * 2048000 < 4294967296" by arith
  have "unat (f div 1000000 div 4) * unat (2048000 :: 32 word) < 2 ^ LENGTH(32)"
    using b by (simp add: unat_div)
  then have "unat (f div 1000000 div 4 * 2048000) = unat (f div 1000000 div 4) * unat (2048000 :: 32 word)"
    by (simp only: unat_mult_lem)
  then show ?thesis by (simp add: unat_div)
qed

lemma unat_cyc32:
  "unat ((f :: 32 word) div 1000000 div 4 * 2048000 div (m div 1000)) = cycles (unat f) (unat m)"
  using unat_clk_part [of f] by (simp add: cycles_def unat_div)

lemma cyc_of_cycles:
  assumes "0 < unat m div 1000"
  shows "cyc_of f m = Some (of_nat (cycles (unat f) (unat m)))"
proof -
  have nz: "m div 1000 \<noteq> 0" using assms(1) by (simp add: unat_div flip: unat_eq_0)
  let ?w = "f div 1000000 div 4 * 2048000 div (m div 1000)"
  have "(ucast ?w :: 16 word) = of_nat (unat ?w)" by simp
  also have "\<dots> = of_nat (cycles (unat f) (unat m))" by (simp only: unat_cyc32)
  finally have "(ucast ?w :: 16 word) = of_nat (cycles (unat f) (unat m))" .
  moreover have "cyc_of f m = Some (ucast ?w)" using nz by (simp add: cyc_of_def)
  ultimately show ?thesis by simp
qed

lemma div16: 
  assumes "n < 65536" and "p < 65536"
  shows "(of_nat n :: 16 word) div of_nat p = of_nat (n div p)"
proof -
  have "unat (of_nat n :: 16 word) = n" "unat (of_nat p :: 16 word) = p"
    using assms by (simp_all add: unat_of_nat)
  then show ?thesis by (simp add: word_arith_nat_div)
qed

lemma ucast_neg: "(ucast (- (of_nat n :: 16 word)) :: 8 word) = - of_nat n"
proof -
  have "- (of_nat n :: 16 word) = word_of_int (- int n)" by simp
  then have "(ucast (- (of_nat n :: 16 word)) :: 8 word) = ucast (word_of_int (- int n) :: 16 word)" by simp
  also have "\<dots> = word_of_int (- int n)" by (rule ucast_down_wi) (simp add: is_down)
  finally show ?thesis by simp
qed

lemma ps_switch_reload:
  assumes "ps \<in> prescalers" and "n < 65536"
  shows "map_option snd (ps_switch ps (of_nat n)) = Some (- of_nat (n div nat ps))"
proof -
  have d: "\<And>p. p < 65536 \<Longrightarrow> (ucast (- ((of_nat n :: 16 word) div of_nat p)) :: 8 word) = - of_nat (n div p)"
    using assms(2) by (simp add: div16 ucast_neg)
  from assms(1) consider "ps = 2" | "ps = 4" | "ps = 8" | "ps = 16" | "ps = 32" | "ps = 64" | "ps = 128" | "ps = 256"
    by (auto simp add: prescalers_def)
  then show ?thesis
  proof cases
    case 1 then show ?thesis using d [of 2] by (simp add: ps_switch_def) next
    case 2 then show ?thesis using d [of 4] by (simp add: ps_switch_def) next
    case 3 then show ?thesis using d [of 8] by (simp add: ps_switch_def) next
    case 4 then show ?thesis using d [of 16] by (simp add: ps_switch_def) next
    case 5 then show ?thesis using d [of 32] by (simp add: ps_switch_def) next
    case 6 then show ?thesis using d [of 64] by (simp add: ps_switch_def) next
    case 7 then show ?thesis using d [of 128] by (simp add: ps_switch_def) next
    case 8 then show ?thesis using d [of 256] by (simp add: ps_switch_def)
  qed
qed

lemma legal_facts:
  assumes "legal c"
  shows "0 < unat (F_MSB c) div 1000" and "PS_TMR c \<in> prescalers"
    and "cycles (unat (F_CLK c)) (unat (F_MSB c)) < 65536"
    and "1 \<le> quotient c" and "quotient c \<le> 25"
proof -
  let ?clk = "unat (F_CLK c)" and ?msb = "unat (F_MSB c)"
  let ?cy = "cycles ?clk ?msb" and ?p = "nat (PS_TMR c)"
  from assms show m: "0 < ?msb div 1000" and ps: "PS_TMR c \<in> prescalers" and q: "quotient c \<le> 25"
    by (simp_all add: legal_def cycles_exact_def)
  from ps have p: "0 < ?p" "?p \<le> 256" by (auto simp add: prescalers_def)
  from assms have dv: "?p dvd ?cy" by (simp add: legal_def)
  then have cy: "?cy = quotient c * ?p" by (simp add: quotient_def)
  have "quotient c * ?p \<le> 25 * 256" using q p(2) by (rule mult_le_mono)
  then show "?cy < 65536" using cy by simp
  from assms have "4000000 \<le> ?clk" by (simp add: legal_def)
  then have "1 \<le> ?clk div 1000000 div 4" by arith
  then have x: "0 < ?clk div 1000000 div 4 * (1000 * 2048)" by simp
  from assms have "?msb div 1000 dvd ?clk div 1000000 div 4 * (1000 * 2048)"
    by (simp add: legal_def cycles_exact_def)
  then have "?cy \<noteq> 0" using x unfolding cycles_def
    by (simp add: dvd_div_eq_0_iff)
  then have "0 < ?cy" by simp
  then show "1 \<le> quotient c" using cy by (cases "quotient c") simp_all
qed

lemma neg_as_nat:
  assumes "n \<le> 256"
  shows "(- of_nat n :: 8 word) = of_nat (256 - n)"
proof -
  have "(of_nat (256 - n) :: 8 word) + of_nat n = of_nat (256 - n + n)" by (simp only: of_nat_add)
  also have "\<dots> = of_nat 256" using assms by simp
  also have "\<dots> = (0 :: 8 word)" by simp
  finally have "(of_nat (256 - n) :: 8 word) = - of_nat n" by (simp only: eq_neg_iff_add_eq_0)
  then show ?thesis by (rule sym)
qed

lemma unat_neg:
  assumes "1 \<le> n" and "n \<le> 256"
  shows "unat (- of_nat n :: 8 word) = 256 - n"
proof -
  have "256 - n < 256" using assms by simp
  then have "unat (of_nat (256 - n) :: 8 word) = 256 - n" by (simp add: unat_of_nat)
  then show ?thesis by (simp only: neg_as_nat [OF assms(2)])
qed

lemma neg_reload:
  assumes "1 \<le> n" and "n \<le> 256"
  shows "uint (- of_nat n :: 8 word) = (- int n) mod 256" and "ticks_to_overflow (- of_nat n) = n"
proof -
  have a: "(256 + (- int n)) mod 256 = (- int n) mod 256" by (rule mod_add_self1)
  have b: "(256 + (- int n)) mod 256 = 256 + (- int n)"
  proof (rule mod_pos_pos_trivial)
    show "0 \<le> 256 + (- int n)" using assms by simp
    show "256 + (- int n) < 256" using assms by simp
  qed
  have "256 + (- int n) = int (256 - n)" using assms by simp
  then have "(- int n) mod 256 = int (256 - n)" using a b by (simp only:)
  then show "uint (- of_nat n :: 8 word) = (- int n) mod 256"
    using unat_neg [OF assms] by (simp only: uint_nat)
  show "ticks_to_overflow (- of_nat n) = n"
    using assms by (simp add: ticks_to_overflow_def unat_neg)
qed

lemma freq_init_reload_constant:
  "cyc_of (F_CLK c) (F_MSB c) = Some cyc \<Longrightarrow>
   reload_constant (freq_init c s) = map_option snd (ps_switch (PS_TMR c) cyc)"
  by (simp add: freq_init_def reload_constant_def Let_def split: option.splits prod.splits)

lemma legal_reload: "legal c \<Longrightarrow> reload_constant (freq_init c s) = Some (- of_nat (quotient c))"
  using legal_facts [of c] cyc_of_cycles [of "F_MSB c" "F_CLK c"]
    ps_switch_reload [of "PS_TMR c" "cycles (unat (F_CLK c)) (unat (F_MSB c))"]
  by (simp add: freq_init_reload_constant quotient_def)

lemma legal_shipped: "legal shipped" "quotient shipped = 15"
  by (simp_all add: legal_def shipped_def prescalers_def cycles_exact_def cycles_def quotient_def)

lemma legal_Returns:
  assumes "legal c"
  obtains s1 where "freq_init c s = Returns s1" and "tmr_prx1 s1 = - of_nat (quotient c)"
  using legal_reload [OF assms, of s]
  by (cases "freq_init c s") (simp_all add: reload_constant_def)

text \<open>
  C4. For every legal configuration the resolver produces the two's-complement
  negative, in 8 bits, of the cycle count over the prescaler: read as an unsigned byte
  it is the negated quotient modulo 256, and a timer preloaded with it overflows after
  exactly that many prescaled ticks.
\<close>

theorem reload_constant_encoding:
  assumes "legal c"
  shows "reload_constant (freq_init c s) = Some (- of_nat (quotient c)) \<and>
     map_option uint (reload_constant (freq_init c s)) = Some ((- int (quotient c)) mod 256) \<and>
     map_option ticks_to_overflow (reload_constant (freq_init c s)) = Some (quotient c)"
  using legal_facts(4,5) [OF assms] neg_reload [of "quotient c"]
  by (simp add: legal_reload [OF assms])

theorem reload_constant_encoding_witness: "legal shipped \<and> reload_constant (freq_init shipped power_on) = Some 241 \<and>
     map_option uint (reload_constant (freq_init shipped power_on)) = Some ((- 15) mod 256) \<and>
     map_option ticks_to_overflow (reload_constant (freq_init shipped power_on)) = Some 15"
  using reload_constant_encoding [OF legal_shipped(1), of power_on] by (simp add: legal_shipped ticks_to_overflow_def)

text \<open>
  C9. For every legal configuration the quotient is at most 25, so ten times it is at
  most 250, and when the foreground loop (with \<^verbatim>\<open>BTN_PORT\<close> defined) reads the control
  input as 0, the 8-bit product \<^verbatim>\<open>10 * tmr_prx1\<close> it stores in \<^verbatim>\<open>tmr_pr\<close> is the
  negative of ten times the quotient modulo 256: the timer then overflows after exactly
  ten times the nominal number of ticks.
\<close>

theorem extended_preload_exact:
  assumes "legal c" and "BTN_PORT c" and "IO_GET pins BTN_PIN = 0"
  shows "quotient c \<le> 25 \<and> 10 * quotient c \<le> 250 \<and>
     map_option (uint \<circ> tmr_pr) (main c (evs @ [Iteration pins]) s) =
       Some ((- int (10 * quotient c)) mod 256) \<and>
     map_option (ticks_to_overflow \<circ> tmr_pr) (main c (evs @ [Iteration pins]) s) =
       Some (10 * quotient c)"
proof -
  note q = legal_facts(4,5) [OF assms(1)]
  obtain s1 where fi: "freq_init c s = Returns s1" and r: "tmr_prx1 s1 = - of_nat (quotient c)"
    using legal_Returns [OF assms(1)] by blast
  let ?t = "foldl (step c) (ei s1) evs"
  have "tmr_prx1 ?t = - of_nat (quotient c)" using r by (simp add: run_prx1 ei_def)
  then have "tmr_pr (loop_body c pins ?t) = 10 * (- of_nat (quotient c))"
    using assms(2,3) by (simp add: loop_body_def Let_def write_GPIO_def)
  also have "\<dots> = - of_nat (10 * quotient c)" by simp
  finally have pr: "tmr_pr (loop_body c pins ?t) = - of_nat (10 * quotient c)" .
  have m: "main c (evs @ [Iteration pins]) s = Some (loop_body c pins ?t)"
    by (simp add: main_Returns [OF fi])
  show ?thesis using q neg_reload [of "10 * quotient c"] by (simp add: m pr)
qed

theorem extended_preload_exact_witness: "legal (shipped\<lparr>BTN_PORT := True\<rparr>) \<and> IO_GET 0 BTN_PIN = 0 \<and>
     quotient (shipped\<lparr>BTN_PORT := True\<rparr>) = 15 \<and>
     map_option (uint \<circ> tmr_pr) (main (shipped\<lparr>BTN_PORT := True\<rparr>) ([Expiry] @ [Iteration 0]) power_on) = Some 106 \<and>
     map_option (ticks_to_overflow \<circ> tmr_pr) (main (shipped\<lparr>BTN_PORT := True\<rparr>) ([Expiry] @ [Iteration 0]) power_on) = Some 150"
proof -
  have l: "legal (shipped\<lparr>BTN_PORT := True\<rparr>)" and q: "quotient (shipped\<lparr>BTN_PORT := True\<rparr>) = 15"
    by (simp_all add: legal_def shipped_def prescalers_def cycles_exact_def cycles_def quotient_def)
  have b: "BTN_PORT (shipped\<lparr>BTN_PORT := True\<rparr>)" by simp
  have g: "IO_GET 0 BTN_PIN = 0" by (simp add: IO_GET_def)
  show ?thesis using extended_preload_exact [OF l b g, of "[Expiry]" power_on] l g by (simp add: q)
qed

end
